theory Spec2Isabelle
  imports Main
begin

section \<open>Error classes (errors.ts)\<close>

text \<open>
  errors.ts declares three classes on top of the built-in \<open>Error\<close>:
  \<open>RetryableError extends Error\<close>, \<open>ParseError extends RetryableError\<close> and
  \<open>TimeoutError extends Error\<close>. A class is a constructor of \<open>ErrorClass\<close>; the
  \<open>extends\<close> clause of each declaration is the function \<open>extends\<close>.
\<close>

datatype ErrorClass = Error | RetryableError | ParseError | TimeoutError

fun "extends" :: "ErrorClass \<Rightarrow> ErrorClass option" where
  "extends Error = None"
| "extends RetryableError = Some Error"
| "extends ParseError = Some RetryableError"
| "extends TimeoutError = Some Error"

fun classDepth :: "ErrorClass \<Rightarrow> nat" where
  "classDepth Error = 0"
| "classDepth RetryableError = 1"
| "classDepth ParseError = 2"
| "classDepth TimeoutError = 1"

text \<open>The prototype chain of a class: the class itself, then its ancestors up to \<open>Error\<close>.\<close>

function prototypeChain :: "ErrorClass \<Rightarrow> ErrorClass list" where
  "prototypeChain c =
     (case extends c of None \<Rightarrow> [c] | Some p \<Rightarrow> c # prototypeChain p)"
  by pat_completeness auto
termination
proof (relation "measure classDepth")
  show "wf (measure classDepth)" by simp
next
  fix c p
  assume "extends c = Some p"
  then show "(p, c) \<in> measure classDepth" by (cases c) auto
qed

text \<open>A thrown value: the class it was constructed with (\<open>new C(message)\<close>) and its message.\<close>

record JsError =
  err_class :: ErrorClass
  err_message :: string

text \<open>\<open>e instanceof C\<close>: \<open>C\<close> occurs on the prototype chain of the class of \<open>e\<close>.\<close>

definition instanceof :: "JsError \<Rightarrow> ErrorClass \<Rightarrow> bool" where
  "instanceof e C = (C \<in> set (prototypeChain (err_class e)))"

section \<open>Messages (interface Msg and namespace Msg)\<close>

datatype Role = RoleSystem | RoleUser | RoleAssistant | RoleFunction | RoleTool

text \<open>\<open>Msg.Call.Function\<close> and \<open>Msg.Call.Tool\<close>; the field \<open>type\<close> of a tool call has the
  single value \<open>'function'\<close>.\<close>

record Call_Function =
  fn_arguments :: string
  fn_name :: string

datatype ToolType = ToolTypeFunction

record Call_Tool =
  tool_id :: string
  tool_type :: ToolType
  tool_function :: Call_Function

text \<open>
  The untyped message. \<open>content\<close> is \<open>string | null\<close>: \<open>None\<close> is \<open>null\<close>. The four
  optional fields are \<open>None\<close> when the property is absent (or undefined), which is
  what the source's tests \<open>!= null\<close> distinguish.
\<close>

record Msg =
  content :: "string option"
  role :: Role
  function_call :: "Call_Function option"
  tool_calls :: "Call_Tool list option"
  tool_call_id :: "string option"
  name :: "string option"

text \<open>The narrowed message types \<open>Msg.System\<close>, ..., \<open>Msg.ToolResult\<close>, as the type
  declarations give them: the role, whether \<open>content\<close> is a string or \<open>null\<close>, and the
  fields that are required.\<close>

datatype Variant = System | User | Assistant | FuncCall | FuncResult | ToolCall | ToolResult

fun conformsTo :: "Msg \<Rightarrow> Variant \<Rightarrow> bool" where
  "conformsTo m System = (role m = RoleSystem \<and> content m \<noteq> None)"
| "conformsTo m User = (role m = RoleUser \<and> content m \<noteq> None)"
| "conformsTo m Assistant = (role m = RoleAssistant \<and> content m \<noteq> None)"
| "conformsTo m FuncCall =
     (role m = RoleAssistant \<and> content m = None \<and> function_call m \<noteq> None)"
| "conformsTo m FuncResult =
     (role m = RoleFunction \<and> name m \<noteq> None \<and> content m \<noteq> None)"
| "conformsTo m ToolCall =
     (role m = RoleAssistant \<and> content m = None \<and> tool_calls m \<noteq> None)"
| "conformsTo m ToolResult =
     (role m = RoleTool \<and> tool_call_id m \<noteq> None \<and> content m \<noteq> None)"

subsection \<open>Construction helpers\<close>

text \<open>
  The option bags: \<open>{ name?: string }\<close> for the call and result helpers, and
  \<open>{ name?: string, cleanContent?: boolean }\<close> for the free-text helpers. The
  \<open>opts\<close> argument itself is optional, hence \<open>opts option\<close> below.
\<close>

record NameOpts =
  opt_name :: "string option"

record TextOpts = NameOpts +
  cleanContent :: "bool option"

text \<open>JavaScript truthiness of an optional string: absent and the empty string are falsy.\<close>

definition truthy :: "string option \<Rightarrow> bool" where
  "truthy s = (case s of None \<Rightarrow> False | Some v \<Rightarrow> v \<noteq> [])"

text \<open>\<open>const { name, cleanContent = true } = opts ?? {}\<close>\<close>

definition optsName :: "TextOpts option \<Rightarrow> string option" where
  "optsName opts = (case opts of None \<Rightarrow> None | Some o1 \<Rightarrow> opt_name o1)"

definition optsCleanContent :: "TextOpts option \<Rightarrow> bool" where
  "optsCleanContent opts =
     (case opts of None \<Rightarrow> True
      | Some o1 \<Rightarrow> (case cleanContent o1 of None \<Rightarrow> True | Some b \<Rightarrow> b))"

text \<open>\<open>...opts\<close> on a \<open>{ name?: string }\<close> bag copies \<open>name\<close> when it is there.\<close>

definition spreadName :: "NameOpts option \<Rightarrow> string option" where
  "spreadName opts = (case opts of None \<Rightarrow> None | Some o1 \<Rightarrow> opt_name o1)"

text \<open>
  \<open>cleanStringForModel\<close> and \<open>stringifyForModel\<close> are imported from utils.js; they are
  parameters of the helpers that call them. \<open>stringifyForModel\<close> takes a
  \<open>Jsonifiable\<close>, the type variable \<open>'j\<close>, and is declared to return a string.
\<close>

definition system :: "(string \<Rightarrow> string) \<Rightarrow> string \<Rightarrow> TextOpts option \<Rightarrow> Msg" where
  "system cleanStringForModel c opts =
     \<lparr> content = Some (if optsCleanContent opts then cleanStringForModel c else c),
       role = RoleSystem,
       function_call = None, tool_calls = None, tool_call_id = None,
       name = (if truthy (optsName opts) then optsName opts else None) \<rparr>"

definition user :: "(string \<Rightarrow> string) \<Rightarrow> string \<Rightarrow> TextOpts option \<Rightarrow> Msg" where
  "user cleanStringForModel c opts =
     \<lparr> content = Some (if optsCleanContent opts then cleanStringForModel c else c),
       role = RoleUser,
       function_call = None, tool_calls = None, tool_call_id = None,
       name = (if truthy (optsName opts) then optsName opts else None) \<rparr>"

definition assistant :: "(string \<Rightarrow> string) \<Rightarrow> string \<Rightarrow> TextOpts option \<Rightarrow> Msg" where
  "assistant cleanStringForModel c opts =
     \<lparr> content = Some (if optsCleanContent opts then cleanStringForModel c else c),
       role = RoleAssistant,
       function_call = None, tool_calls = None, tool_call_id = None,
       name = (if truthy (optsName opts) then optsName opts else None) \<rparr>"

definition funcCall :: "Call_Function \<Rightarrow> NameOpts option \<Rightarrow> Msg" where
  "funcCall fc opts =
     \<lparr> content = None, role = RoleAssistant,
       function_call = Some fc, tool_calls = None, tool_call_id = None,
       name = spreadName opts \<rparr>"

definition funcResult :: "('j \<Rightarrow> string) \<Rightarrow> 'j \<Rightarrow> string \<Rightarrow> Msg" where
  "funcResult stringifyForModel c nm =
     \<lparr> content = Some (stringifyForModel c), role = RoleFunction,
       function_call = None, tool_calls = None, tool_call_id = None,
       name = Some nm \<rparr>"

definition toolCall :: "Call_Tool list \<Rightarrow> NameOpts option \<Rightarrow> Msg" where
  "toolCall tcs opts =
     \<lparr> content = None, role = RoleAssistant,
       function_call = None, tool_calls = Some tcs, tool_call_id = None,
       name = spreadName opts \<rparr>"

definition toolResult :: "('j \<Rightarrow> string) \<Rightarrow> 'j \<Rightarrow> string \<Rightarrow> NameOpts option \<Rightarrow> Msg" where
  "toolResult stringifyForModel c tcid opts =
     \<lparr> content = Some (stringifyForModel c), role = RoleTool,
       function_call = None, tool_calls = None, tool_call_id = Some tcid,
       name = spreadName opts \<rparr>"

subsection \<open>Narrowing a response message\<close>

text \<open>
  \<open>narrowResponseMessage\<close>: the three tests in source order, then the throw of
  \<open>new Error('Invalid message')\<close> as \<open>Inl\<close>. The line printed by \<open>console.log\<close> before
  the throw is not part of the returned value and is not modelled.
\<close>

definition narrowResponseMessage :: "(string \<Rightarrow> string) \<Rightarrow> Msg \<Rightarrow> JsError + Msg" where
  "narrowResponseMessage cleanStringForModel msg =
     (if content msg = None \<and> tool_calls msg \<noteq> None then
        Inr (toolCall (the (tool_calls msg)) None)
      else if content msg = None \<and> function_call msg \<noteq> None then
        Inr (funcCall (the (function_call msg)) None)
      else if content msg \<noteq> None then
        Inr (assistant cleanStringForModel (the (content msg)) None)
      else
        Inl \<lparr> err_class = Error, err_message = ''Invalid message'' \<rparr>)"

subsection \<open>Predicates and narrow\<close>

definition isSystem :: "Msg \<Rightarrow> bool" where
  "isSystem message = (role message = RoleSystem)"

definition isUser :: "Msg \<Rightarrow> bool" where
  "isUser message = (role message = RoleUser)"

definition isAssistant :: "Msg \<Rightarrow> bool" where
  "isAssistant message = (role message = RoleAssistant \<and> content message \<noteq> None)"

definition isFuncCall :: "Msg \<Rightarrow> bool" where
  "isFuncCall message = (role message = RoleAssistant \<and> function_call message \<noteq> None)"

definition isFuncResult :: "Msg \<Rightarrow> bool" where
  "isFuncResult message = (role message = RoleFunction \<and> name message \<noteq> None)"

definition isToolCall :: "Msg \<Rightarrow> bool" where
  "isToolCall message = (role message = RoleAssistant \<and> tool_calls message \<noteq> None)"

definition isToolResult :: "Msg \<Rightarrow> bool" where
  "isToolResult message = (role message = RoleTool \<and> truthy (tool_call_id message))"

text \<open>\<open>narrow\<close> returns its argument when one of the seven guards accepts it, tried in
  source order, and throws \<open>new Error('Invalid message type')\<close> otherwise.\<close>

definition narrow :: "Msg \<Rightarrow> JsError + Msg" where
  "narrow message =
     (if isSystem message then Inr message
      else if isUser message then Inr message
      else if isAssistant message then Inr message
      else if isFuncCall message then Inr message
      else if isFuncResult message then Inr message
      else if isToolCall message then Inr message
      else if isToolResult message then Inr message
      else Inl \<lparr> err_class = Error, err_message = ''Invalid message type'' \<rparr>)"

text \<open>
  Each guard is declared as a type predicate, \<open>message is Msg.System\<close> and so on:
  \<open>guard v\<close> is the guard whose declaration names the variant \<open>v\<close>, and
  \<open>acceptingVariants m\<close> lists the variants whose guard accepts \<open>m\<close>, in the order in
  which \<open>narrow\<close> tries them.
\<close>

fun guard :: "Variant \<Rightarrow> Msg \<Rightarrow> bool" where
  "guard System = isSystem"
| "guard User = isUser"
| "guard Assistant = isAssistant"
| "guard FuncCall = isFuncCall"
| "guard FuncResult = isFuncResult"
| "guard ToolCall = isToolCall"
| "guard ToolResult = isToolResult"

definition acceptingVariants :: "Msg \<Rightarrow> Variant list" where
  "acceptingVariants m =
     filter (\<lambda>v. guard v m)
       [System, User, Assistant, FuncCall, FuncResult, ToolCall, ToolResult]"

section \<open>Well-formedness and the call invariant\<close>

text \<open>A message carries a call request when \<open>function_call\<close> or \<open>tool_calls\<close> is set.\<close>

definition carriesCall :: "Msg \<Rightarrow> bool" where
  "carriesCall m = (function_call m \<noteq> None \<or> tool_calls m \<noteq> None)"

definition carriesBothCalls :: "Msg \<Rightarrow> bool" where
  "carriesBothCalls m = (function_call m \<noteq> None \<and> tool_calls m \<noteq> None)"

definition carriesExactlyOneCall :: "Msg \<Rightarrow> bool" where
  "carriesExactlyOneCall m = (carriesCall m \<and> \<not> carriesBothCalls m)"

text \<open>
  The invariant of the data model: \<open>content\<close> is null if and only if the message
  carries a call request, and a message that carries a call request has exactly one of
  the two call fields set.
\<close>

definition callInvariant :: "Msg \<Rightarrow> bool" where
  "callInvariant m =
     ((content m = None) = carriesCall m
      \<and> (carriesCall m \<longrightarrow> carriesExactlyOneCall m))"

text \<open>
  Well-formedness as the specification words it for the predicates: \<open>content\<close> is null
  if and only if the message carries exactly one of the two call fields; \<open>name\<close> is
  present when the role is \<open>function\<close>; \<open>tool_call_id\<close> is present when the role is
  \<open>tool\<close>.
\<close>

definition wellFormedAsStated :: "Msg \<Rightarrow> bool" where
  "wellFormedAsStated m =
     ((content m = None) = carriesExactlyOneCall m
      \<and> (role m = RoleFunction \<longrightarrow> name m \<noteq> None)
      \<and> (role m = RoleTool \<longrightarrow> tool_call_id m \<noteq> None))"

text \<open>
  The same with the two further conditions that the guards need: the two call fields
  are never both set, and the \<open>tool_call_id\<close> of a \<open>tool\<close> message is not the empty
  string.
\<close>

definition wellFormedStrict :: "Msg \<Rightarrow> bool" where
  "wellFormedStrict m =
     (wellFormedAsStated m
      \<and> \<not> carriesBothCalls m
      \<and> (role m = RoleTool \<longrightarrow> tool_call_id m \<noteq> Some []))"

text \<open>
  Well-formedness for narrowing. Every narrowed type other than \<open>Msg.FuncCall\<close> and
  \<open>Msg.ToolCall\<close> declares \<open>content: string\<close>, and those two have the role
  \<open>assistant\<close>: so, besides what the specification words, only an assistant message
  has null content, and the \<open>tool_call_id\<close> of a \<open>tool\<close> message is not the empty
  string.
\<close>

definition wellFormedVariant :: "Msg \<Rightarrow> bool" where
  "wellFormedVariant m =
     (wellFormedAsStated m
      \<and> (content m = None \<longrightarrow> role m = RoleAssistant)
      \<and> (role m = RoleTool \<longrightarrow> tool_call_id m \<noteq> Some []))"

section \<open>The error hierarchy\<close>

lemma prototypeChain_Error: "prototypeChain Error = [Error]"
  by simp

lemma prototypeChain_RetryableError: "prototypeChain RetryableError = [RetryableError, Error]"
  by simp

lemma prototypeChain_ParseError:
  "prototypeChain ParseError = [ParseError, RetryableError, Error]"
  by simp

lemma prototypeChain_TimeoutError: "prototypeChain TimeoutError = [TimeoutError, Error]"
  by simp

text \<open>
  Claim C7. Every error that is an instance of ParseError is an instance of
  RetryableError, because ParseError extends RetryableError; an error constructed as a
  TimeoutError is not an instance of RetryableError, because TimeoutError extends Error
  directly.
\<close>

theorem parse_error_is_retryable_timeout_is_not:
  "(\<forall>e. instanceof e ParseError \<longrightarrow> instanceof e RetryableError)
   \<and> extends ParseError = Some RetryableError
   \<and> (\<forall>e. err_class e = TimeoutError \<longrightarrow> \<not> instanceof e RetryableError)
   \<and> extends TimeoutError = Some Error"
proof -
  have "instanceof e RetryableError" if "instanceof e ParseError" for e
    using that unfolding instanceof_def by (cases "err_class e") auto
  moreover have "\<not> instanceof e RetryableError" if "err_class e = TimeoutError" for e
    using that unfolding instanceof_def by simp
  ultimately show ?thesis by simp
qed

theorem parse_error_is_retryable_timeout_is_not_witness:
  "instanceof \<lparr> err_class = ParseError, err_message = ''bad json'' \<rparr> ParseError
   \<and> instanceof \<lparr> err_class = ParseError, err_message = ''bad json'' \<rparr> RetryableError
   \<and> \<not> instanceof \<lparr> err_class = TimeoutError, err_message = ''deadline'' \<rparr> RetryableError"
proof -
  have p: "instanceof \<lparr> err_class = ParseError, err_message = ''bad json'' \<rparr> ParseError"
    unfolding instanceof_def by simp
  have t: "err_class \<lparr> err_class = TimeoutError, err_message = ''deadline'' \<rparr> = TimeoutError"
    by simp
  from parse_error_is_retryable_timeout_is_not p t show ?thesis by blast
qed

section \<open>Narrowing a response message\<close>

text \<open>
  Claim C1. narrowResponseMessage classifies in source order and the first match wins:
  null content with tool_calls present gives a ToolCall message (also when
  function_call is present as well); otherwise null content with function_call present
  gives a FuncCall message; otherwise non-null content gives an Assistant message. In
  each case the result has the shape of that variant and is accepted by that variant's
  guard and by neither of the other two.
\<close>

theorem narrowResponseMessage_classification_order:
  "(content m = None \<and> tool_calls m \<noteq> None \<longrightarrow>
      (\<exists>r. narrowResponseMessage clean m = Inr r \<and> conformsTo r ToolCall
           \<and> isToolCall r \<and> \<not> isFuncCall r \<and> \<not> isAssistant r))
   \<and> (content m = None \<and> tool_calls m = None \<and> function_call m \<noteq> None \<longrightarrow>
      (\<exists>r. narrowResponseMessage clean m = Inr r \<and> conformsTo r FuncCall
           \<and> isFuncCall r \<and> \<not> isToolCall r \<and> \<not> isAssistant r))
   \<and> (content m \<noteq> None \<longrightarrow>
      (\<exists>r. narrowResponseMessage clean m = Inr r \<and> conformsTo r Assistant
           \<and> isAssistant r \<and> \<not> isToolCall r \<and> \<not> isFuncCall r))"
  by (simp add: narrowResponseMessage_def toolCall_def funcCall_def assistant_def
      isToolCall_def isFuncCall_def isAssistant_def)

theorem narrowResponseMessage_classification_order_witness:
  "(\<exists>r. narrowResponseMessage id
        \<lparr> content = None, role = RoleAssistant,
          function_call = Some \<lparr> fn_arguments = ''{}'', fn_name = ''legacy'' \<rparr>,
          tool_calls = Some [\<lparr> tool_id = ''call_1'', tool_type = ToolTypeFunction,
            tool_function = \<lparr> fn_arguments = ''{}'', fn_name = ''search'' \<rparr> \<rparr>],
          tool_call_id = None, name = None \<rparr> = Inr r
        \<and> conformsTo r ToolCall \<and> isToolCall r \<and> \<not> isFuncCall r \<and> \<not> isAssistant r)
   \<and> (\<exists>r. narrowResponseMessage id
        \<lparr> content = None, role = RoleAssistant,
          function_call = Some \<lparr> fn_arguments = ''{}'', fn_name = ''legacy'' \<rparr>,
          tool_calls = None, tool_call_id = None, name = None \<rparr> = Inr r
        \<and> conformsTo r FuncCall \<and> isFuncCall r \<and> \<not> isToolCall r \<and> \<not> isAssistant r)
   \<and> (\<exists>r. narrowResponseMessage id
        \<lparr> content = Some ''hello'', role = RoleAssistant,
          function_call = None, tool_calls = None, tool_call_id = None,
          name = None \<rparr> = Inr r
        \<and> conformsTo r Assistant \<and> isAssistant r \<and> \<not> isToolCall r \<and> \<not> isFuncCall r)"
proof -
  let ?m1 = "\<lparr> content = None, role = RoleAssistant,
          function_call = Some \<lparr> fn_arguments = ''{}'', fn_name = ''legacy'' \<rparr>,
          tool_calls = Some [\<lparr> tool_id = ''call_1'', tool_type = ToolTypeFunction,
            tool_function = \<lparr> fn_arguments = ''{}'', fn_name = ''search'' \<rparr> \<rparr>],
          tool_call_id = None, name = None \<rparr>"
  let ?m2 = "\<lparr> content = None, role = RoleAssistant,
          function_call = Some \<lparr> fn_arguments = ''{}'', fn_name = ''legacy'' \<rparr>,
          tool_calls = None, tool_call_id = None, name = None \<rparr>"
  let ?m3 = "\<lparr> content = Some ''hello'', role = RoleAssistant,
          function_call = None, tool_calls = None, tool_call_id = None,
          name = None \<rparr>"
  have h1: "content ?m1 = None \<and> tool_calls ?m1 \<noteq> None" by simp
  have h2: "content ?m2 = None \<and> tool_calls ?m2 = None \<and> function_call ?m2 \<noteq> None"
    by simp
  have h3: "content ?m3 \<noteq> None" by simp
  from narrowResponseMessage_classification_order [of ?m1 id] h1
  have c1: "\<exists>r. narrowResponseMessage id ?m1 = Inr r \<and> conformsTo r ToolCall
      \<and> isToolCall r \<and> \<not> isFuncCall r \<and> \<not> isAssistant r"
    by blast
  from narrowResponseMessage_classification_order [of ?m2 id] h2
  have c2: "\<exists>r. narrowResponseMessage id ?m2 = Inr r \<and> conformsTo r FuncCall
      \<and> isFuncCall r \<and> \<not> isToolCall r \<and> \<not> isAssistant r"
    by blast
  from narrowResponseMessage_classification_order [of ?m3 id] h3
  have c3: "\<exists>r. narrowResponseMessage id ?m3 = Inr r \<and> conformsTo r Assistant
      \<and> isAssistant r \<and> \<not> isToolCall r \<and> \<not> isFuncCall r"
    by blast
  from c1 c2 c3 show ?thesis by blast
qed

text \<open>
  Claim C2, as the code has it. A message whose content is null and which has neither
  function_call nor tool_calls is never narrowed to a message: narrowResponseMessage
  throws. The value thrown is a plain \<open>Error\<close> with the message 'Invalid message', not
  an instance of an error class of its own.
\<close>

theorem narrowResponseMessage_invalid_throws_plain_error:
  assumes "content m = None" and "function_call m = None" and "tool_calls m = None"
  shows "narrowResponseMessage clean m
           = Inl \<lparr> err_class = Error, err_message = ''Invalid message'' \<rparr>
         \<and> (\<forall>r. narrowResponseMessage clean m \<noteq> Inr r)"
  using assms by (simp add: narrowResponseMessage_def)

theorem narrowResponseMessage_invalid_throws_plain_error_witness:
  "narrowResponseMessage id
      \<lparr> content = None, role = RoleUser, function_call = None, tool_calls = None,
        tool_call_id = None, name = Some ''bob'' \<rparr>
     = Inl \<lparr> err_class = Error, err_message = ''Invalid message'' \<rparr>
   \<and> (\<forall>r. narrowResponseMessage id
      \<lparr> content = None, role = RoleUser, function_call = None, tool_calls = None,
        tool_call_id = None, name = Some ''bob'' \<rparr> \<noteq> Inr r)"
proof -
  let ?m = "\<lparr> content = None, role = RoleUser, function_call = None, tool_calls = None,
        tool_call_id = None, name = Some ''bob'' \<rparr>"
  have "content ?m = None" and "function_call ?m = None" and "tool_calls ?m = None"
    by simp_all
  then show ?thesis by (rule narrowResponseMessage_invalid_throws_plain_error)
qed

text \<open>
  The error thrown for the assistant message with null content and no call field is
  constructed with \<open>new Error\<close>: it is an instance of none of the classes that
  errors.ts declares, so it is not of a distinct error class.
\<close>

theorem narrowResponseMessage_invalid_error_class_counterexample:
  "narrowResponseMessage id
      \<lparr> content = None, role = RoleAssistant, function_call = None, tool_calls = None,
        tool_call_id = None, name = None \<rparr>
     = Inl \<lparr> err_class = Error, err_message = ''Invalid message'' \<rparr>
   \<and> \<not> instanceof \<lparr> err_class = Error, err_message = ''Invalid message'' \<rparr> RetryableError
   \<and> \<not> instanceof \<lparr> err_class = Error, err_message = ''Invalid message'' \<rparr> ParseError
   \<and> \<not> instanceof \<lparr> err_class = Error, err_message = ''Invalid message'' \<rparr> TimeoutError"
  by (simp add: narrowResponseMessage_def instanceof_def)

text \<open>
  Claim C8. For a response with non-null content \<open>c\<close>, narrowResponseMessage returns
  \<open>Msg.assistant(c)\<close> with no options, so cleanContent takes its default and the
  content of the result is \<open>cleanStringForModel(c)\<close>, not \<open>c\<close> itself: wherever
  cleaning changes \<open>c\<close>, the returned content differs from the content received.
\<close>

theorem narrowResponseMessage_content_is_cleaned:
  assumes "content m = Some c"
  shows "narrowResponseMessage clean m = Inr (assistant clean c None)
         \<and> content (assistant clean c None) = Some (clean c)
         \<and> (clean c \<noteq> c \<longrightarrow> content (assistant clean c None) \<noteq> content m)"
  using assms
  by (simp add: narrowResponseMessage_def assistant_def optsCleanContent_def)

theorem narrowResponseMessage_content_is_cleaned_witness:
  "narrowResponseMessage (dropWhile ((=) CHR '' ''))
      \<lparr> content = Some '' hi'', role = RoleAssistant, function_call = None,
        tool_calls = None, tool_call_id = None, name = None \<rparr>
     = Inr (assistant (dropWhile ((=) CHR '' '')) '' hi'' None)
   \<and> content (assistant (dropWhile ((=) CHR '' '')) '' hi'' None) = Some ''hi''
   \<and> content (assistant (dropWhile ((=) CHR '' '')) '' hi'' None) \<noteq> Some '' hi''"
proof -
  let ?m = "\<lparr> content = Some '' hi'', role = RoleAssistant, function_call = None,
        tool_calls = None, tool_call_id = None, name = None \<rparr>"
  have h: "content ?m = Some '' hi''" by simp
  have d: "dropWhile ((=) CHR '' '') '' hi'' = ''hi''" by simp
  from narrowResponseMessage_content_is_cleaned [OF h, of "dropWhile ((=) CHR '' '')"] d
  show ?thesis by simp
qed

text \<open>
  Claim C9. For a response with null content, the call payload is handed on unchanged:
  when tool_calls is present the result's tool_calls is the input's, and otherwise when
  function_call is present the result's function_call is the input's. The helpers are
  called without options, so the result has no name, whatever the input's name was.
\<close>

theorem narrowResponseMessage_keeps_payload_drops_name:
  "(content m = None \<and> tool_calls m \<noteq> None \<longrightarrow>
      (\<exists>r. narrowResponseMessage clean m = Inr r
           \<and> tool_calls r = tool_calls m \<and> name r = None))
   \<and> (content m = None \<and> tool_calls m = None \<and> function_call m \<noteq> None \<longrightarrow>
      (\<exists>r. narrowResponseMessage clean m = Inr r
           \<and> function_call r = function_call m \<and> name r = None))"
  by (auto simp add: narrowResponseMessage_def toolCall_def funcCall_def spreadName_def)

theorem narrowResponseMessage_keeps_payload_drops_name_witness:
  "(\<exists>r. narrowResponseMessage id
        \<lparr> content = None, role = RoleAssistant, function_call = None,
          tool_calls = Some [\<lparr> tool_id = ''call_7'', tool_type = ToolTypeFunction,
            tool_function = \<lparr> fn_arguments = ''{q:1}'', fn_name = ''search'' \<rparr> \<rparr>],
          tool_call_id = None, name = Some ''bot'' \<rparr> = Inr r
        \<and> tool_calls r = Some [\<lparr> tool_id = ''call_7'', tool_type = ToolTypeFunction,
            tool_function = \<lparr> fn_arguments = ''{q:1}'', fn_name = ''search'' \<rparr> \<rparr>]
        \<and> name r = None)
   \<and> (\<exists>r. narrowResponseMessage id
        \<lparr> content = None, role = RoleAssistant,
          function_call = Some \<lparr> fn_arguments = ''{q:1}'', fn_name = ''lookup'' \<rparr>,
          tool_calls = None, tool_call_id = None, name = Some ''bot'' \<rparr> = Inr r
        \<and> function_call r = Some \<lparr> fn_arguments = ''{q:1}'', fn_name = ''lookup'' \<rparr>
        \<and> name r = None)"
proof -
  let ?m1 = "\<lparr> content = None, role = RoleAssistant, function_call = None,
          tool_calls = Some [\<lparr> tool_id = ''call_7'', tool_type = ToolTypeFunction,
            tool_function = \<lparr> fn_arguments = ''{q:1}'', fn_name = ''search'' \<rparr> \<rparr>],
          tool_call_id = None, name = Some ''bot'' \<rparr>"
  let ?m2 = "\<lparr> content = None, role = RoleAssistant,
          function_call = Some \<lparr> fn_arguments = ''{q:1}'', fn_name = ''lookup'' \<rparr>,
          tool_calls = None, tool_call_id = None, name = Some ''bot'' \<rparr>"
  have h1: "content ?m1 = None \<and> tool_calls ?m1 \<noteq> None" by simp
  have h2: "content ?m2 = None \<and> tool_calls ?m2 = None \<and> function_call ?m2 \<noteq> None"
    by simp
  from narrowResponseMessage_keeps_payload_drops_name [of ?m1 id] h1
  have c1: "\<exists>r. narrowResponseMessage id ?m1 = Inr r
      \<and> tool_calls r = tool_calls ?m1 \<and> name r = None"
    by blast
  from narrowResponseMessage_keeps_payload_drops_name [of ?m2 id] h2
  have c2: "\<exists>r. narrowResponseMessage id ?m2 = Inr r
      \<and> function_call r = function_call ?m2 \<and> name r = None"
    by blast
  from c1 c2 show ?thesis by simp
qed

section \<open>Guards and narrow\<close>

lemma wellFormedStrict_single_guard:
  assumes "wellFormedStrict m"
  shows "\<exists>v. acceptingVariants m = [v]"
proof (cases "role m")
  case RoleSystem
  then show ?thesis
    by (simp add: acceptingVariants_def isSystem_def isUser_def isAssistant_def
        isFuncCall_def isFuncResult_def isToolCall_def isToolResult_def)
next
  case RoleUser
  then show ?thesis
    by (simp add: acceptingVariants_def isSystem_def isUser_def isAssistant_def
        isFuncCall_def isFuncResult_def isToolCall_def isToolResult_def)
next
  case RoleAssistant
  with assms show ?thesis
    by (auto simp add: acceptingVariants_def isSystem_def isUser_def isAssistant_def
        isFuncCall_def isFuncResult_def isToolCall_def isToolResult_def
        wellFormedStrict_def wellFormedAsStated_def carriesExactlyOneCall_def
        carriesCall_def carriesBothCalls_def)
next
  case RoleFunction
  with assms show ?thesis
    by (simp add: acceptingVariants_def isSystem_def isUser_def isAssistant_def
        isFuncCall_def isFuncResult_def isToolCall_def isToolResult_def
        wellFormedStrict_def wellFormedAsStated_def)
next
  case RoleTool
  with assms have "truthy (tool_call_id m)"
    by (auto simp add: wellFormedStrict_def wellFormedAsStated_def truthy_def
        split: option.splits)
  with RoleTool show ?thesis
    by (simp add: acceptingVariants_def isSystem_def isUser_def isAssistant_def
        isFuncCall_def isFuncResult_def isToolCall_def isToolResult_def)
qed

text \<open>
  Msg.narrow, unlike narrowResponseMessage, looks at the role first: a system message
  with null content and no call field is returned as it is.
\<close>

lemma narrow_returns_system_message_with_null_content:
  "narrow \<lparr> content = None, role = RoleSystem, function_call = None, tool_calls = None,
      tool_call_id = None, name = None \<rparr>
   = Inr \<lparr> content = None, role = RoleSystem, function_call = None, tool_calls = None,
      tool_call_id = None, name = None \<rparr>"
  by (simp add: narrow_def isSystem_def)

text \<open>
  Under the hypothesis as the specification words it, a message with content and both
  call fields passes, and three guards accept it.
\<close>

lemma wellFormedAsStated_both_calls_three_guards:
  "wellFormedAsStated
      \<lparr> content = Some ''hi'', role = RoleAssistant,
        function_call = Some \<lparr> fn_arguments = ''{}'', fn_name = ''f'' \<rparr>,
        tool_calls = Some [], tool_call_id = None, name = None \<rparr>
   \<and> acceptingVariants
      \<lparr> content = Some ''hi'', role = RoleAssistant,
        function_call = Some \<lparr> fn_arguments = ''{}'', fn_name = ''f'' \<rparr>,
        tool_calls = Some [], tool_call_id = None, name = None \<rparr>
     = [Assistant, FuncCall, ToolCall]"
  by (simp add: wellFormedAsStated_def carriesExactlyOneCall_def carriesCall_def
      carriesBothCalls_def acceptingVariants_def isSystem_def isUser_def isAssistant_def
      isFuncCall_def isFuncResult_def isToolCall_def isToolResult_def)

text \<open>
  Claim C3, as the code has it. The seven guards are functions of the message alone.
  For every message that is well-formed, never carries both call fields, and whose
  tool_call_id is not the empty string when the role is tool, exactly one of the seven
  guards isSystem, isUser, isAssistant, isFuncCall, isFuncResult, isToolCall,
  isToolResult accepts it.
\<close>

theorem guards_exactly_one_when_strictly_well_formed:
  "wellFormedStrict m \<Longrightarrow> length (acceptingVariants m) = 1"
  using wellFormedStrict_single_guard [of m] by auto

theorem guards_exactly_one_when_strictly_well_formed_witness:
  "wellFormedStrict
      \<lparr> content = Some ''sunny'', role = RoleTool, function_call = None,
        tool_calls = None, tool_call_id = Some ''call_1'', name = None \<rparr>
   \<and> length (acceptingVariants
      \<lparr> content = Some ''sunny'', role = RoleTool, function_call = None,
        tool_calls = None, tool_call_id = Some ''call_1'', name = None \<rparr>) = 1"
proof -
  let ?m = "\<lparr> content = Some ''sunny'', role = RoleTool, function_call = None,
        tool_calls = None, tool_call_id = Some ''call_1'', name = None \<rparr>"
  have h: "wellFormedStrict ?m"
    by (simp add: wellFormedStrict_def wellFormedAsStated_def carriesExactlyOneCall_def
        carriesCall_def carriesBothCalls_def)
  from h guards_exactly_one_when_strictly_well_formed [OF h] show ?thesis by simp
qed

text \<open>
  A tool message with content, no call field and the empty string as tool_call_id is
  well-formed as the specification words it (tool_call_id is present), and none of the
  seven guards accepts it: isToolResult tests the truthiness of tool_call_id.
\<close>

theorem guards_exactly_one_counterexample:
  "wellFormedAsStated
      \<lparr> content = Some ''42'', role = RoleTool, function_call = None,
        tool_calls = None, tool_call_id = Some '''', name = None \<rparr>
   \<and> acceptingVariants
      \<lparr> content = Some ''42'', role = RoleTool, function_call = None,
        tool_calls = None, tool_call_id = Some '''', name = None \<rparr> = []"
  by (simp add: wellFormedAsStated_def carriesExactlyOneCall_def carriesCall_def
      carriesBothCalls_def acceptingVariants_def isSystem_def isUser_def isAssistant_def
      isFuncCall_def isFuncResult_def isToolCall_def isToolResult_def truthy_def)

lemma wellFormedVariant_narrow_returns:
  assumes "wellFormedVariant m"
  shows "narrow m = Inr m"
proof (cases "role m")
  case RoleSystem
  then show ?thesis by (simp add: narrow_def isSystem_def)
next
  case RoleUser
  then show ?thesis by (simp add: narrow_def isSystem_def isUser_def)
next
  case RoleAssistant
  show ?thesis
  proof (cases "content m")
    case Some
    with RoleAssistant show ?thesis
      by (simp add: narrow_def isSystem_def isUser_def isAssistant_def)
  next
    case None
    with assms have "function_call m \<noteq> None \<or> tool_calls m \<noteq> None"
      by (simp add: wellFormedVariant_def wellFormedAsStated_def
          carriesExactlyOneCall_def carriesCall_def)
    with RoleAssistant show ?thesis
      by (auto simp add: narrow_def isSystem_def isUser_def isAssistant_def
          isFuncCall_def isFuncResult_def isToolCall_def)
  qed
next
  case RoleFunction
  with assms have "name m \<noteq> None"
    by (simp add: wellFormedVariant_def wellFormedAsStated_def)
  with RoleFunction show ?thesis
    by (simp add: narrow_def isSystem_def isUser_def isAssistant_def isFuncCall_def
        isFuncResult_def)
next
  case RoleTool
  with assms have "truthy (tool_call_id m)"
    by (auto simp add: wellFormedVariant_def wellFormedAsStated_def truthy_def
        split: option.splits)
  with RoleTool show ?thesis
    by (simp add: narrow_def isSystem_def isUser_def isAssistant_def isFuncCall_def
        isFuncResult_def isToolCall_def isToolResult_def)
qed

lemma wellFormedVariant_one_variant:
  assumes "wellFormedVariant m"
  shows "\<exists>!v. conformsTo m v"
proof (cases "role m")
  case RoleSystem
  with assms have c: "content m \<noteq> None" by (auto simp add: wellFormedVariant_def)
  show ?thesis
  proof (rule ex1I [of _ System])
    from RoleSystem c show "conformsTo m System" by simp
  next
    fix v assume "conformsTo m v"
    with RoleSystem show "v = System" by (cases v) simp_all
  qed
next
  case RoleUser
  with assms have c: "content m \<noteq> None" by (auto simp add: wellFormedVariant_def)
  show ?thesis
  proof (rule ex1I [of _ User])
    from RoleUser c show "conformsTo m User" by simp
  next
    fix v assume "conformsTo m v"
    with RoleUser show "v = User" by (cases v) simp_all
  qed
next
  case RoleAssistant
  show ?thesis
  proof (cases "content m")
    case Some
    show ?thesis
    proof (rule ex1I [of _ Assistant])
      from RoleAssistant Some show "conformsTo m Assistant" by simp
    next
      fix v assume "conformsTo m v"
      with RoleAssistant Some show "v = Assistant" by (cases v) simp_all
    qed
  next
    case None
    with assms have one: "(function_call m \<noteq> None) \<noteq> (tool_calls m \<noteq> None)"
      by (auto simp add: wellFormedVariant_def wellFormedAsStated_def
          carriesExactlyOneCall_def carriesCall_def carriesBothCalls_def)
    show ?thesis
    proof (cases "function_call m")
      case fc: Some
      with one have tc: "tool_calls m = None" by simp
      show ?thesis
      proof (rule ex1I [of _ FuncCall])
        from RoleAssistant None fc show "conformsTo m FuncCall" by simp
      next
        fix v assume "conformsTo m v"
        with RoleAssistant None tc show "v = FuncCall" by (cases v) simp_all
      qed
    next
      case fc: None
      with one have tc: "tool_calls m \<noteq> None" by simp
      show ?thesis
      proof (rule ex1I [of _ ToolCall])
        from RoleAssistant None tc show "conformsTo m ToolCall" by simp
      next
        fix v assume "conformsTo m v"
        with RoleAssistant None fc show "v = ToolCall" by (cases v) simp_all
      qed
    qed
  qed
next
  case RoleFunction
  with assms have c: "content m \<noteq> None" and n: "name m \<noteq> None"
    by (auto simp add: wellFormedVariant_def wellFormedAsStated_def)
  show ?thesis
  proof (rule ex1I [of _ FuncResult])
    from RoleFunction c n show "conformsTo m FuncResult" by simp
  next
    fix v assume "conformsTo m v"
    with RoleFunction show "v = FuncResult" by (cases v) simp_all
  qed
next
  case RoleTool
  with assms have c: "content m \<noteq> None" and i: "tool_call_id m \<noteq> None"
    by (auto simp add: wellFormedVariant_def wellFormedAsStated_def)
  show ?thesis
  proof (rule ex1I [of _ ToolResult])
    from RoleTool c i show "conformsTo m ToolResult" by simp
  next
    fix v assume "conformsTo m v"
    with RoleTool show "v = ToolResult" by (cases v) simp_all
  qed
qed

text \<open>
  A system message with null content and a function_call is well-formed as the
  specification words it, and narrow returns it, yet it has the shape of none of the
  seven variants: \<open>Msg.System\<close> declares \<open>content: string\<close>, and the call variants have
  the role \<open>assistant\<close>.
\<close>

lemma narrow_returns_message_of_no_variant:
  "wellFormedAsStated
      \<lparr> content = None, role = RoleSystem,
        function_call = Some \<lparr> fn_arguments = ''{}'', fn_name = ''f'' \<rparr>,
        tool_calls = None, tool_call_id = None, name = None \<rparr>
   \<and> narrow
      \<lparr> content = None, role = RoleSystem,
        function_call = Some \<lparr> fn_arguments = ''{}'', fn_name = ''f'' \<rparr>,
        tool_calls = None, tool_call_id = None, name = None \<rparr>
     = Inr \<lparr> content = None, role = RoleSystem,
        function_call = Some \<lparr> fn_arguments = ''{}'', fn_name = ''f'' \<rparr>,
        tool_calls = None, tool_call_id = None, name = None \<rparr>
   \<and> (\<forall>v. \<not> conformsTo
      \<lparr> content = None, role = RoleSystem,
        function_call = Some \<lparr> fn_arguments = ''{}'', fn_name = ''f'' \<rparr>,
        tool_calls = None, tool_call_id = None, name = None \<rparr> v)"
proof -
  let ?m = "\<lparr> content = None, role = RoleSystem,
        function_call = Some \<lparr> fn_arguments = ''{}'', fn_name = ''f'' \<rparr>,
        tool_calls = None, tool_call_id = None, name = None \<rparr>"
  have "wellFormedAsStated ?m"
    by (simp add: wellFormedAsStated_def carriesExactlyOneCall_def carriesCall_def
        carriesBothCalls_def)
  moreover have "narrow ?m = Inr ?m" by (simp add: narrow_def isSystem_def)
  moreover have "\<not> conformsTo ?m v" for v by (cases v) simp_all
  ultimately show ?thesis by blast
qed

text \<open>
  Claim C4, as the code has it. For every message that is well-formed, has null content
  only when its role is assistant, and whose tool_call_id is not the empty string when
  the role is tool, narrow returns (it does not throw), the value returned is the message
  itself, and that message belongs to exactly one of the seven variants System, User,
  Assistant, FuncCall, FuncResult, ToolCall, ToolResult.
\<close>

theorem narrow_total_and_result_in_exactly_one_variant:
  assumes "wellFormedVariant m"
  shows "\<exists>r. narrow m = Inr r \<and> r = m \<and> (\<exists>!v. conformsTo r v)"
  using wellFormedVariant_narrow_returns [OF assms]
    wellFormedVariant_one_variant [OF assms]
  by simp

theorem narrow_total_and_result_in_exactly_one_variant_witness:
  "wellFormedVariant
      \<lparr> content = None, role = RoleAssistant, function_call = None,
        tool_calls = Some [\<lparr> tool_id = ''call_1'', tool_type = ToolTypeFunction,
          tool_function = \<lparr> fn_arguments = ''{}'', fn_name = ''search'' \<rparr> \<rparr>],
        tool_call_id = None, name = None \<rparr>
   \<and> (\<exists>r. narrow
      \<lparr> content = None, role = RoleAssistant, function_call = None,
        tool_calls = Some [\<lparr> tool_id = ''call_1'', tool_type = ToolTypeFunction,
          tool_function = \<lparr> fn_arguments = ''{}'', fn_name = ''search'' \<rparr> \<rparr>],
        tool_call_id = None, name = None \<rparr> = Inr r
      \<and> r = \<lparr> content = None, role = RoleAssistant, function_call = None,
        tool_calls = Some [\<lparr> tool_id = ''call_1'', tool_type = ToolTypeFunction,
          tool_function = \<lparr> fn_arguments = ''{}'', fn_name = ''search'' \<rparr> \<rparr>],
        tool_call_id = None, name = None \<rparr>
      \<and> (\<exists>!v. conformsTo r v))"
proof -
  let ?m = "\<lparr> content = None, role = RoleAssistant, function_call = None,
        tool_calls = Some [\<lparr> tool_id = ''call_1'', tool_type = ToolTypeFunction,
          tool_function = \<lparr> fn_arguments = ''{}'', fn_name = ''search'' \<rparr> \<rparr>],
        tool_call_id = None, name = None \<rparr>"
  have h: "wellFormedVariant ?m"
    by (simp add: wellFormedVariant_def wellFormedAsStated_def carriesExactlyOneCall_def
        carriesCall_def carriesBothCalls_def)
  from h narrow_total_and_result_in_exactly_one_variant [OF h] show ?thesis by blast
qed

text \<open>
  The tool result with content 'sunny', a name and the empty string as tool_call_id
  is well-formed as the specification words it, and narrow throws on it.
\<close>

theorem narrow_total_counterexample:
  "wellFormedAsStated
      \<lparr> content = Some ''sunny'', role = RoleTool, function_call = None,
        tool_calls = None, tool_call_id = Some '''', name = Some ''weather'' \<rparr>
   \<and> narrow
      \<lparr> content = Some ''sunny'', role = RoleTool, function_call = None,
        tool_calls = None, tool_call_id = Some '''', name = Some ''weather'' \<rparr>
     = Inl \<lparr> err_class = Error, err_message = ''Invalid message type'' \<rparr>"
  by (simp add: wellFormedAsStated_def carriesExactlyOneCall_def carriesCall_def
      carriesBothCalls_def narrow_def isSystem_def isUser_def isAssistant_def
      isFuncCall_def isFuncResult_def isToolCall_def isToolResult_def truthy_def)

text \<open>
  Claim C10. A tool message with non-null content and the empty string as tool_call_id
  is rejected by isToolResult, which tests truthiness, and narrow throws on it; a
  function message with non-null content and no name is rejected by isFuncResult, and
  narrow throws on it.
\<close>

theorem narrow_rejects_empty_tool_call_id_and_missing_name:
  "(role m = RoleTool \<and> content m \<noteq> None \<and> tool_call_id m = Some [] \<longrightarrow>
      \<not> isToolResult m
      \<and> narrow m = Inl \<lparr> err_class = Error, err_message = ''Invalid message type'' \<rparr>)
   \<and> (role m = RoleFunction \<and> content m \<noteq> None \<and> name m = None \<longrightarrow>
      \<not> isFuncResult m
      \<and> narrow m = Inl \<lparr> err_class = Error, err_message = ''Invalid message type'' \<rparr>)"
  by (simp add: narrow_def isSystem_def isUser_def isAssistant_def isFuncCall_def
      isFuncResult_def isToolCall_def isToolResult_def truthy_def)

theorem narrow_rejects_empty_tool_call_id_and_missing_name_witness:
  "\<not> isToolResult
      \<lparr> content = Some ''done'', role = RoleTool, function_call = None,
        tool_calls = None, tool_call_id = Some '''', name = None \<rparr>
   \<and> narrow
      \<lparr> content = Some ''done'', role = RoleTool, function_call = None,
        tool_calls = None, tool_call_id = Some '''', name = None \<rparr>
     = Inl \<lparr> err_class = Error, err_message = ''Invalid message type'' \<rparr>
   \<and> \<not> isFuncResult
      \<lparr> content = Some ''done'', role = RoleFunction, function_call = None,
        tool_calls = None, tool_call_id = None, name = None \<rparr>
   \<and> narrow
      \<lparr> content = Some ''done'', role = RoleFunction, function_call = None,
        tool_calls = None, tool_call_id = None, name = None \<rparr>
     = Inl \<lparr> err_class = Error, err_message = ''Invalid message type'' \<rparr>"
proof -
  let ?t = "\<lparr> content = Some ''done'', role = RoleTool, function_call = None,
        tool_calls = None, tool_call_id = Some '''', name = None \<rparr>"
  let ?f = "\<lparr> content = Some ''done'', role = RoleFunction, function_call = None,
        tool_calls = None, tool_call_id = None, name = None \<rparr>"
  have ht: "role ?t = RoleTool \<and> content ?t \<noteq> None \<and> tool_call_id ?t = Some []"
    by simp
  have hf: "role ?f = RoleFunction \<and> content ?f \<noteq> None \<and> name ?f = None"
    by simp
  from narrow_rejects_empty_tool_call_id_and_missing_name [of ?t] ht
  have ct: "\<not> isToolResult ?t
      \<and> narrow ?t = Inl \<lparr> err_class = Error, err_message = ''Invalid message type'' \<rparr>"
    by blast
  from narrow_rejects_empty_tool_call_id_and_missing_name [of ?f] hf
  have cf: "\<not> isFuncResult ?f
      \<and> narrow ?f = Inl \<lparr> err_class = Error, err_message = ''Invalid message type'' \<rparr>"
    by blast
  from ct cf show ?thesis by blast
qed

section \<open>Construction helpers\<close>

text \<open>
  Claim C5. Every message built by Msg.system, Msg.user, Msg.assistant, Msg.funcCall,
  Msg.funcResult, Msg.toolCall and Msg.toolResult satisfies the call invariant: its
  content is null if and only if it carries a call request, and when it carries one,
  exactly one of function_call and tool_calls is set.
\<close>

theorem construction_helpers_keep_call_invariant:
  "callInvariant (system clean s topts)
   \<and> callInvariant (user clean s topts)
   \<and> callInvariant (assistant clean s topts)
   \<and> callInvariant (funcCall fc nopts)
   \<and> callInvariant (funcResult stringify j nm)
   \<and> callInvariant (toolCall tcs nopts)
   \<and> callInvariant (toolResult stringify j tcid nopts)"
  by (simp add: callInvariant_def carriesCall_def carriesBothCalls_def
      carriesExactlyOneCall_def system_def user_def assistant_def funcCall_def
      funcResult_def toolCall_def toolResult_def)

theorem construction_helpers_keep_call_invariant_witness:
  "callInvariant (system id ''be brief'' None)
   \<and> callInvariant (user id ''be brief'' None)
   \<and> callInvariant (assistant id ''be brief'' None)
   \<and> callInvariant (funcCall \<lparr> fn_arguments = ''{}'', fn_name = ''f'' \<rparr>
        (Some \<lparr> opt_name = Some ''bot'' \<rparr>))
   \<and> callInvariant (funcResult id ''42'' ''f'')
   \<and> callInvariant (toolCall [] (Some \<lparr> opt_name = Some ''bot'' \<rparr>))
   \<and> callInvariant (toolResult id ''42'' ''call_1'' (Some \<lparr> opt_name = Some ''bot'' \<rparr>))"
  by (rule construction_helpers_keep_call_invariant)

text \<open>
  Claim C6. Msg.system, Msg.user and Msg.assistant clean the content by default: with
  no options, or with options that leave cleanContent out, or with cleanContent true,
  the content of the message is \<open>cleanStringForModel(s)\<close>. With cleanContent false the
  content of the message is \<open>s\<close> itself, for every string \<open>s\<close>.
\<close>

theorem free_text_helpers_clean_by_default_and_keep_exact_text_on_opt_out:
  "content (system clean s None) = Some (clean s)
   \<and> content (system clean s (Some \<lparr> opt_name = n, cleanContent = None \<rparr>)) = Some (clean s)
   \<and> content (system clean s (Some \<lparr> opt_name = n, cleanContent = Some True \<rparr>)) = Some (clean s)
   \<and> content (system clean s (Some \<lparr> opt_name = n, cleanContent = Some False \<rparr>)) = Some s
   \<and> content (user clean s None) = Some (clean s)
   \<and> content (user clean s (Some \<lparr> opt_name = n, cleanContent = None \<rparr>)) = Some (clean s)
   \<and> content (user clean s (Some \<lparr> opt_name = n, cleanContent = Some True \<rparr>)) = Some (clean s)
   \<and> content (user clean s (Some \<lparr> opt_name = n, cleanContent = Some False \<rparr>)) = Some s
   \<and> content (assistant clean s None) = Some (clean s)
   \<and> content (assistant clean s (Some \<lparr> opt_name = n, cleanContent = None \<rparr>)) = Some (clean s)
   \<and> content (assistant clean s (Some \<lparr> opt_name = n, cleanContent = Some True \<rparr>)) = Some (clean s)
   \<and> content (assistant clean s (Some \<lparr> opt_name = n, cleanContent = Some False \<rparr>)) = Some s"
  by (simp add: system_def user_def assistant_def optsCleanContent_def)

theorem free_text_helpers_clean_by_default_and_keep_exact_text_on_opt_out_witness:
  "content (system (dropWhile ((=) CHR '' '')) ''  x '' None) = Some ''x ''
   \<and> content (system (dropWhile ((=) CHR '' '')) ''  x ''
        (Some \<lparr> opt_name = None, cleanContent = Some False \<rparr>)) = Some ''  x ''
   \<and> content (user (dropWhile ((=) CHR '' '')) ''  x '' None) = Some ''x ''
   \<and> content (user (dropWhile ((=) CHR '' '')) ''  x ''
        (Some \<lparr> opt_name = None, cleanContent = Some False \<rparr>)) = Some ''  x ''
   \<and> content (assistant (dropWhile ((=) CHR '' '')) ''  x '' None) = Some ''x ''
   \<and> content (assistant (dropWhile ((=) CHR '' '')) ''  x ''
        (Some \<lparr> opt_name = None, cleanContent = Some False \<rparr>)) = Some ''  x ''"
  using free_text_helpers_clean_by_default_and_keep_exact_text_on_opt_out
    [of "dropWhile ((=) CHR '' '')" "''  x ''" None]
  by simp

end
